theory Spec2Isabelle
  imports Main "HOL-Library.AList"
begin

section \<open>JavaScript values\<close>

text \<open>
  The library works on the deserialised payload of the remote finding service and on the
  arguments of its callers, all of them untyped JavaScript values. \<open>Obj\<close> is an object
  as the list of its own properties in insertion order (each key once, as in an object);
  \<open>Arr\<close> is a dense array. \<open>Num n\<close> stands for the number whose value is the
  integer \<open>n\<close> (exact in a double up to \<open>2 ^ 53\<close>); fractions and the
  negative zero are not represented. A string is a list of code units below 256.
\<close>

datatype jsval =
    Undefined
  | Null
  | Bool bool
  | Num int
  | NaN
  | Str string
  | Arr "jsval list"
  | Obj "(string \<times> jsval) list"

text \<open>
  What the code can raise or reject with: \<open>new Error(message)\<close>, a \<open>TypeError\<close> of
  the runtime (a property read on \<open>null\<close> or \<open>undefined\<close>, a call of something that
  is no function), and an arbitrary value (\<open>throw response\<close>, \<open>reject(err)\<close>).
\<close>

datatype error =
    Error string
  | TypeError
  | Thrown jsval

text \<open>The conversion to boolean that \<open>!x\<close>, \<open>x && y\<close>, \<open>x || y\<close> and \<open>x ? y : z\<close> apply.\<close>

fun truthy :: "jsval \<Rightarrow> bool" where
  "truthy Undefined = False"
| "truthy Null = False"
| "truthy (Bool b) = b"
| "truthy (Num n) = (n \<noteq> 0)"
| "truthy NaN = False"
| "truthy (Str s) = (s \<noteq> [])"
| "truthy (Arr xs) = True"
| "truthy (Obj fs) = True"

definition or_js :: "jsval \<Rightarrow> jsval \<Rightarrow> jsval" where
  "or_js a b = (if truthy a then a else b)"

subsection \<open>Conversion to string\<close>

definition digit_char :: "nat \<Rightarrow> char" where
  "digit_char d = char_of (48 + d)"

fun dec :: "nat \<Rightarrow> string" where
  "dec n = (if n < 10 then [digit_char n] else dec (n div 10) @ [digit_char (n mod 10)])"

declare dec.simps [simp del]

definition show_int :: "int \<Rightarrow> string" where
  "show_int i = (if i < 0 then CHR ''-'' # dec (nat (- i)) else dec (nat i))"

fun join :: "string \<Rightarrow> string list \<Rightarrow> string" where
  "join sep [] = []"
| "join sep [s] = s"
| "join sep (s # t # ss) = s @ sep @ join sep (t # ss)"

text \<open>
  \<open>ToString\<close> as template literals and \<open>parseInt\<close> apply it. An array prints its
  elements separated by commas, \<open>null\<close> and \<open>undefined\<close> elements as the empty string.
\<close>

fun ToString :: "jsval \<Rightarrow> string"
  and element_string :: "jsval \<Rightarrow> string" where
  "ToString Undefined = ''undefined''"
| "ToString Null = ''null''"
| "ToString (Bool b) = (if b then ''true'' else ''false'')"
| "ToString (Num n) = show_int n"
| "ToString NaN = ''NaN''"
| "ToString (Str s) = s"
| "ToString (Arr xs) = join '','' (map element_string xs)"
| "ToString (Obj fs) = ''[object Object]''"
| "element_string Undefined = []"
| "element_string Null = []"
| "element_string v = ToString v"

subsection \<open>Property access\<close>

text \<open>
  The key \<open>k\<close> names element \<open>i\<close> of an array or string of length \<open>n\<close> when it is the
  decimal numeral of \<open>i < n\<close>.
\<close>

definition index_key :: "string \<Rightarrow> nat \<Rightarrow> nat option" where
  "index_key k n = find (\<lambda>i. dec i = k) [0..<n]"

text \<open>
  \<open>own_prop v k\<close> is \<open>v[k]\<close> for a value other than \<open>null\<close> and \<open>undefined\<close>: the own
  property, or \<open>undefined\<close>. Properties inherited from a prototype are left out; the
  code reads none of them.
\<close>

fun own_prop :: "jsval \<Rightarrow> string \<Rightarrow> jsval" where
  "own_prop (Obj fs) k = (case map_of fs k of Some v \<Rightarrow> v | None \<Rightarrow> Undefined)"
| "own_prop (Arr xs) k =
     (if k = ''length'' then Num (int (length xs))
      else case index_key k (length xs) of Some i \<Rightarrow> xs ! i | None \<Rightarrow> Undefined)"
| "own_prop (Str s) k =
     (if k = ''length'' then Num (int (length s))
      else case index_key k (length s) of Some i \<Rightarrow> Str [s ! i] | None \<Rightarrow> Undefined)"
| "own_prop v k = Undefined"

definition nullish :: "jsval \<Rightarrow> bool" where
  "nullish v = (v = Undefined \<or> v = Null)"

definition getprop :: "jsval \<Rightarrow> string \<Rightarrow> error + jsval" where
  "getprop v k = (if nullish v then Inl TypeError else Inr (own_prop v k))"

text \<open>
  \<open>v[k] = x\<close> on an object: an existing key keeps its place, a new one goes last (keys
  that are array indices, which an object lists first, are not moved: nothing here
  depends on the order). The code assigns only to a key it has just read from an object.
\<close>

fun setprop :: "jsval \<Rightarrow> string \<Rightarrow> jsval \<Rightarrow> jsval" where
  "setprop (Obj fs) k x = Obj (AList.update k x fs)"
| "setprop v k x = v"

text \<open>
  The own enumerable properties that an object spread \<open>{...v}\<close> copies: those of an
  object, the elements of an array or string under their indices, nothing otherwise.
\<close>

fun spread :: "jsval \<Rightarrow> (string \<times> jsval) list" where
  "spread (Obj fs) = fs"
| "spread (Arr xs) = zip (map dec [0..<length xs]) xs"
| "spread (Str s) = zip (map dec [0..<length s]) (map (\<lambda>c. Str [c]) s)"
| "spread v = []"

definition define_all :: "(string \<times> jsval) list \<Rightarrow> (string \<times> jsval) list \<Rightarrow> (string \<times> jsval) list" where
  "define_all fs kvs = foldl (\<lambda>acc (k, x). AList.update k x acc) fs kvs"

section \<open>The helpers of index.js\<close>

text \<open>\<open>forceArray = arr => [].concat(arr !== undefined ? arr : [])\<close>\<close>

fun forceArray :: "jsval \<Rightarrow> jsval" where
  "forceArray Undefined = Arr []"
| "forceArray (Arr xs) = Arr xs"
| "forceArray v = Arr [v]"

definition findOperations :: "string list" where
  "findOperations =
     [''findCompletedItems'', ''findItemsAdvanced'', ''findItemsByCategory'',
      ''findItemsByKeywords'', ''findItemsByProduct'', ''findItemsIneBayStores'',
      ''getHistograms'', ''getSearchKeywordsRecommendation'', ''getVersion'']"

definition validOperation :: "string \<Rightarrow> bool" where
  "validOperation op = (op \<in> set findOperations)"

definition productIdTypes :: "string list" where
  "productIdTypes = [''ReferenceID'', ''ISBN'', ''UPC'', ''EAN'']"

definition validProductIdType :: "jsval \<Rightarrow> bool" where
  "validProductIdType type = (type \<in> set (map Str productIdTypes))"

text \<open>
  \<open>flatten\<close>: the loop \<open>for (r in arr)\<close> visits every key of an object and every index
  of an array, and where \<open>arr[r]\<close> is an array of length 1 assigns
  \<open>arr[r] = flatten(arr[r][0])\<close>. The keys of a string are its indices, whose values are
  strings, and other values have no keys, so these are returned as they are. The loop
  body is \<open>flatten_field\<close>. The source updates \<open>arr\<close> in place; the payload is a tree, so
  the model returns the updated value. The loop variable \<open>r\<close> is an undeclared global
  that the recursive call overwrites; the key of the assignment is evaluated before the
  call and the loop sets \<open>r\<close> afresh in each round, so the result is not affected.
\<close>

fun flatten :: "jsval \<Rightarrow> jsval"
  and flatten_field :: "jsval \<Rightarrow> jsval" where
  "flatten (Obj fs) = Obj (map (\<lambda>(r, x). (r, flatten_field x)) fs)"
| "flatten (Arr xs) = Arr (map flatten_field xs)"
| "flatten v = v"
| "flatten_field (Arr [y]) = flatten y"
| "flatten_field x = x"

text \<open>
  The same loop written as the source runs it, one key after the other on the current
  state of the object, for any function \<open>f\<close> in the place of the recursive call.
\<close>

definition for_in_step :: "(jsval \<Rightarrow> jsval) \<Rightarrow> (string \<times> jsval) list \<Rightarrow> string \<Rightarrow> (string \<times> jsval) list" where
  "for_in_step f arr r =
     (case map_of arr r of
        Some (Arr [y]) \<Rightarrow> AList.update r (f y) arr
      | _ \<Rightarrow> arr)"

definition for_in_loop :: "(jsval \<Rightarrow> jsval) \<Rightarrow> (string \<times> jsval) list \<Rightarrow> (string \<times> jsval) list" where
  "for_in_loop f arr = foldl (for_in_step f) arr (map fst arr)"

subsection \<open>parseInt with radix 10\<close>

definition is_space :: "char \<Rightarrow> bool" where
  "is_space c = ((of_char c :: nat) \<in> {9, 10, 11, 12, 13, 32, 160})"

definition is_digit :: "char \<Rightarrow> bool" where
  "is_digit c = (48 \<le> (of_char c :: nat) \<and> (of_char c :: nat) \<le> 57)"

definition digits_value :: "string \<Rightarrow> nat" where
  "digits_value ds = foldl (\<lambda>a c. 10 * a + (of_char c - 48)) 0 ds"

text \<open>
  \<open>parseInt(v, 10)\<close>: leading white space is dropped, then a sign, then the longest run
  of decimal digits is read; with no digit the result is \<open>NaN\<close>.
\<close>

definition parseInt :: "jsval \<Rightarrow> jsval" where
  "parseInt v =
     (let S = dropWhile is_space (ToString v);
          negative = (S \<noteq> [] \<and> hd S = CHR ''-'');
          S' = (if S \<noteq> [] \<and> (hd S = CHR ''+'' \<or> hd S = CHR ''-'') then tl S else S);
          Z = takeWhile is_digit S'
      in if Z = [] then NaN
         else Num ((if negative then - 1 else 1) * int (digits_value Z)))"

section \<open>The client handle and the remote call\<close>

text \<open>
  \<open>ebay.get('finding', params, callback)\<close> belongs to the HTTP client, which is not part
  of this library. A client is the function from the service name and the parameters to
  the pair \<open>(err, data)\<close> that it hands to the callback; it calls back once. The
  process-wide state is the handle \<open>ebay\<close>, \<open>null\<close> until \<open>init\<close>, and, to speak about
  the calls made, the list of the remote calls issued so far.
\<close>

type_synonym client = "string \<Rightarrow> jsval \<Rightarrow> jsval \<times> jsval"

record world =
  ebay :: "client option"
  issued :: "(string \<times> jsval) list"

text \<open>
  A promise as it ends: resolved, rejected, or left to the client because the callback
  itself raised (the exception then travels into the client: a client that calls back
  synchronously lets it reach the executor, which rejects with it; after an asynchronous
  reply nothing settles the promise).
\<close>

datatype 'r promise =
    Resolved 'r
  | Rejected error
  | CallbackThrew error

text \<open>\<open>init = ({ appId }) => { ebay = new Ebay({ app_id: appId }) }\<close>, for the constructor \<open>Ebay\<close> of the client.\<close>

definition init :: "(jsval \<Rightarrow> client) \<Rightarrow> jsval \<Rightarrow> world \<Rightarrow> (error + unit) \<times> world" where
  "init Ebay config w =
     (case getprop config ''appId'' of
        Inl e \<Rightarrow> (Inl e, w)
      | Inr appId \<Rightarrow> (Inr (), w\<lparr>ebay := Some (Ebay (Obj [(''app_id'', appId)]))\<rparr>))"

section \<open>The dispatcher findCall\<close>

text \<open>The object literal \<open>{ ...other, 'OPERATION-NAME': operation, ...baseParams }\<close>.\<close>

definition call_params :: "string \<Rightarrow> jsval \<Rightarrow> jsval \<Rightarrow> jsval" where
  "call_params operation baseParams other =
     Obj (define_all (AList.update ''OPERATION-NAME'' (Str operation) (define_all [] (spread other)))
            (spread baseParams))"

text \<open>The callback \<open>(err, data) => { ... }\<close> given to the client.\<close>

definition on_reply :: "string \<Rightarrow> jsval \<times> jsval \<Rightarrow> jsval promise" where
  "on_reply operation reply =
     (case reply of (err, data) \<Rightarrow>
        if truthy err then Rejected (Thrown err)
        else (case getprop (flatten data) (operation @ ''Response'') of
                Inl e \<Rightarrow> CallbackThrew e
              | Inr response \<Rightarrow>
                  if \<not> truthy response then Rejected (Error ''eBay Response Empty'')
                  else Resolved response))"

text \<open>\<open>.then(response => parser(response))\<close>\<close>

definition then_parser :: "(jsval \<Rightarrow> error + 'r) \<Rightarrow> jsval promise \<Rightarrow> 'r promise" where
  "then_parser parser p =
     (case p of
        Resolved response \<Rightarrow> (case parser response of Inl e \<Rightarrow> Rejected e | Inr v \<Rightarrow> Resolved v)
      | Rejected e \<Rightarrow> Rejected e
      | CallbackThrew e \<Rightarrow> CallbackThrew e)"

definition invalid_operation_message :: "string \<Rightarrow> string" where
  "invalid_operation_message operation =
     ''invalid operation '' @ operation @ '' use one of ['' @ join '' '' findOperations @ '']''"

text \<open>
  \<open>findCall = operation => parser => baseParams => other => { ... }\<close>. The executor of
  the promise builds the parameters and calls \<open>ebay.get\<close>; on the handle \<open>null\<close> that
  is a \<open>TypeError\<close> inside the executor, so the promise is rejected with it.
\<close>

definition findCall ::
  "string \<Rightarrow> (jsval \<Rightarrow> error + 'r) \<Rightarrow> jsval \<Rightarrow> jsval \<Rightarrow> world \<Rightarrow> (error + 'r promise) \<times> world" where
  "findCall operation parser baseParams other w =
     (if \<not> validOperation operation then (Inl (Error (invalid_operation_message operation)), w)
      else
        let params = call_params operation baseParams other in
        (case ebay w of
           None \<Rightarrow> (Inr (Rejected TypeError), w)
         | Some client \<Rightarrow>
             (Inr (then_parser parser (on_reply operation (client ''finding'' params))),
              w\<lparr>issued := issued w @ [(''finding'', params)]\<rparr>)))"

section \<open>The response parser\<close>

text \<open>
  Lines 111 to 113: \<open>if (searchResult && searchResult.item) searchResult.item =
  forceArray(searchResult.item)\<close>. \<open>searchResult\<close> is the object held by the response,
  so the assignment shows in the response.
\<close>

definition has_item :: "jsval \<Rightarrow> bool" where
  "has_item searchResult = (truthy searchResult \<and> truthy (own_prop searchResult ''item''))"

definition coerce_item :: "jsval \<Rightarrow> jsval" where
  "coerce_item searchResult =
     (if has_item searchResult
      then setprop searchResult ''item'' (forceArray (own_prop searchResult ''item''))
      else searchResult)"

definition coerced_response :: "jsval \<Rightarrow> jsval" where
  "coerced_response response =
     (if has_item (own_prop response ''searchResult'')
      then setprop response ''searchResult'' (coerce_item (own_prop response ''searchResult''))
      else response)"

text \<open>\<open>searchResult.item.map(flatten)\<close>\<close>

fun map_flatten :: "jsval \<Rightarrow> error + jsval" where
  "map_flatten (Arr xs) = Inr (Arr (map flatten xs))"
| "map_flatten v = Inl TypeError"

definition findByProductParser :: "jsval \<Rightarrow> error + jsval" where
  "findByProductParser response =
     (if nullish response then Inl TypeError
      else
        let ack = own_prop response ''ack'';
            version = own_prop response ''version'';
            timestamp = own_prop response ''timestamp'';
            searchResult = coerce_item (own_prop response ''searchResult'');
            paginationOutput = own_prop response ''paginationOutput'';
            itemSearchURL = own_prop response ''itemSearchURL''
        in
          if ack = Str ''Failure'' then Inl (Thrown (coerced_response response))
          else
            (case getprop searchResult ''@count'' of
               Inl e \<Rightarrow> Inl e
             | Inr count \<Rightarrow>
                 (case (if has_item searchResult then map_flatten (own_prop searchResult ''item'')
                        else Inr (Arr [])) of
                    Inl e \<Rightarrow> Inl e
                  | Inr items \<Rightarrow>
                      Inr (Obj [(''ack'', ack),
                                (''version'', version),
                                (''timestamp'', timestamp),
                                (''searchResultCount'', or_js (parseInt count) (Num 0)),
                                (''searchResult'', items),
                                (''paginationOutput'', paginationOutput),
                                (''itemSearchUrl'', itemSearchURL)]))))"

section \<open>The public search functions\<close>

type_synonym pending = "jsval \<Rightarrow> world \<Rightarrow> (error + jsval promise) \<times> world"

definition unknown_type_message :: "jsval \<Rightarrow> string" where
  "unknown_type_message type =
     ''unknown type '' @ ToString type @ '', use one of ['' @ join '' '' productIdTypes @ '']''"

definition callFindByProduct :: "jsval \<Rightarrow> jsval \<Rightarrow> error + pending" where
  "callFindByProduct type ident =
     (if \<not> validProductIdType type then Inl (Error (unknown_type_message type))
      else Inr (findCall ''findItemsByProduct'' findByProductParser
                  (Obj [(''productId.@type'', type), (''productId'', ident)])))"

definition callFindItemsAdvanced :: "jsval \<Rightarrow> pending" where
  "callFindItemsAdvanced str =
     findCall ''findItemsAdvanced'' findByProductParser
       (Obj [(''descriptionSearch'', Bool True), (''keywords'', str)])"

text \<open>
  \<open>findItemsByProduct(type, id, other = {})\<close> returns a function that awaits the
  identifier when \<open>!id\<close>, and the promise of the call otherwise.
\<close>

datatype search =
    AwaitsId "jsval \<Rightarrow> error + pending"
  | Promise "jsval promise"

definition findItemsByProduct :: "jsval \<Rightarrow> jsval \<Rightarrow> jsval \<Rightarrow> world \<Rightarrow> (error + search) \<times> world" where
  "findItemsByProduct type ident other0 w =
     (let other = (if other0 = Undefined then Obj [] else other0) in
      if \<not> truthy ident then (Inr (AwaitsId (\<lambda>lookupId. callFindByProduct type lookupId)), w)
      else
        (case callFindByProduct type ident of
           Inl e \<Rightarrow> (Inl e, w)
         | Inr call \<Rightarrow>
             (case call other w of
                (Inl e, w') \<Rightarrow> (Inl e, w')
              | (Inr p, w') \<Rightarrow> (Inr (Promise p), w'))))"

text \<open>
  The wrappers are \<open>findItemsByProduct(T)(x)(other)\<close>: the value of
  \<open>findItemsByProduct(T)\<close> is applied to the identifier and the result to \<open>other\<close>.
  Applying a promise is a \<open>TypeError\<close>.
\<close>

definition apply_twice :: "(error + search) \<times> world \<Rightarrow> jsval \<Rightarrow> jsval \<Rightarrow> (error + jsval promise) \<times> world" where
  "apply_twice r x other =
     (case r of
        (Inl e, w) \<Rightarrow> (Inl e, w)
      | (Inr (Promise p), w) \<Rightarrow> (Inl TypeError, w)
      | (Inr (AwaitsId f), w) \<Rightarrow>
          (case f x of
             Inl e \<Rightarrow> (Inl e, w)
           | Inr call \<Rightarrow> call other w))"

definition findItemsByUpc :: "jsval \<Rightarrow> jsval \<Rightarrow> world \<Rightarrow> (error + jsval promise) \<times> world" where
  "findItemsByUpc upc other w =
     apply_twice (findItemsByProduct (Str ''UPC'') Undefined Undefined w) upc other"

definition findItemsByReferenceId :: "jsval \<Rightarrow> jsval \<Rightarrow> world \<Rightarrow> (error + jsval promise) \<times> world" where
  "findItemsByReferenceId refId other w =
     apply_twice (findItemsByProduct (Str ''ReferenceID'') Undefined Undefined w) refId other"

definition findItemsByIsbn :: "jsval \<Rightarrow> jsval \<Rightarrow> world \<Rightarrow> (error + jsval promise) \<times> world" where
  "findItemsByIsbn isbn other w =
     apply_twice (findItemsByProduct (Str ''ISBN'') Undefined Undefined w) isbn other"

definition findItemsByEan :: "jsval \<Rightarrow> jsval \<Rightarrow> world \<Rightarrow> (error + jsval promise) \<times> world" where
  "findItemsByEan ean other w =
     apply_twice (findItemsByProduct (Str ''EAN'') Undefined Undefined w) ean other"

definition findItemsByKeywords :: "jsval \<Rightarrow> jsval \<Rightarrow> world \<Rightarrow> (error + jsval promise) \<times> world" where
  "findItemsByKeywords keywords other w = callFindItemsAdvanced keywords other w"

section \<open>The earlier single-function module\<close>

text \<open>
  The second source file holds an earlier \<open>findItemsByProduct\<close> that does everything in
  one function: it checks the handle, then the type, builds the parameters, and parses
  inside the callback, with \<open>reject(response)\<close> in the place of \<open>throw response\<close>. Its
  \<open>forceArray\<close>, \<open>flatten\<close> and \<open>productIdTypes\<close> are those above, and the statements
  between the test of the response and the result are those of \<open>findByProductParser\<close>;
  an exception they raise is raised inside the callback.
\<close>

definition unknown_type_message_v0 :: "jsval \<Rightarrow> string" where
  "unknown_type_message_v0 type =
     ''unknown type '' @ ToString type @ '', use ReferenceID, ISBN, UPC, or EAN''"

definition call_params_v0 :: "jsval \<Rightarrow> jsval \<Rightarrow> jsval \<Rightarrow> jsval" where
  "call_params_v0 type ident other =
     Obj (AList.update ''productId'' ident
           (AList.update ''productId.@type'' type
             (AList.update ''OPERATION-NAME'' (Str ''findItemsByProduct'')
               (define_all [] (spread other)))))"

definition on_reply_v0 :: "jsval \<times> jsval \<Rightarrow> jsval promise" where
  "on_reply_v0 reply =
     (case reply of (err, data) \<Rightarrow>
        if truthy err then Rejected (Thrown err)
        else (case getprop (flatten data) ''findItemsByProductResponse'' of
                Inl e \<Rightarrow> CallbackThrew e
              | Inr response \<Rightarrow>
                  if \<not> truthy response then Rejected (Error ''eBay Response Empty'')
                  else (case findByProductParser response of
                          Inl (Thrown r) \<Rightarrow> Rejected (Thrown r)
                        | Inl e \<Rightarrow> CallbackThrew e
                        | Inr result \<Rightarrow> Resolved result)))"

definition findItemsByProduct_v0 :: "jsval \<Rightarrow> jsval \<Rightarrow> jsval \<Rightarrow> world \<Rightarrow> (error + jsval promise) \<times> world" where
  "findItemsByProduct_v0 type ident other0 w =
     (let other = (if other0 = Undefined then Obj [] else other0) in
      case ebay w of
        None \<Rightarrow> (Inl (Error ''call ebay-find-api init first''), w)
      | Some client \<Rightarrow>
          if type \<notin> set (map Str productIdTypes) then (Inl (Error (unknown_type_message_v0 type)), w)
          else
            let params = call_params_v0 type ident other in
            (Inr (on_reply_v0 (client ''finding'' params)),
             w\<lparr>issued := issued w @ [(''finding'', params)]\<rparr>))"

text \<open>\<open>findItemsByUpc = findItemsByProduct.bind(this, 'UPC')\<close>\<close>

definition findItemsByUpc_v0 :: "jsval \<Rightarrow> jsval \<Rightarrow> world \<Rightarrow> (error + jsval promise) \<times> world" where
  "findItemsByUpc_v0 upc other w = findItemsByProduct_v0 (Str ''UPC'') upc other w"

section \<open>Notions used in the statements\<close>

text \<open>
  The values held directly by a container, and the shape \<open>[[u]]\<close>: a sequence of length
  1 whose sole element is again a sequence of length 1.
\<close>

fun direct_values :: "jsval \<Rightarrow> jsval list" where
  "direct_values (Obj fs) = map snd fs"
| "direct_values (Arr xs) = xs"
| "direct_values v = []"

fun doubly_wrapped :: "jsval \<Rightarrow> bool" where
  "doubly_wrapped (Arr [Arr [u]]) = True"
| "doubly_wrapped v = False"

text \<open>
  A key that is neither \<open>length\<close> nor an index: it has a character that is no digit.
  Every key the code reads is of this kind.
\<close>

definition named :: "string \<Rightarrow> bool" where
  "named k = (k \<noteq> ''length'' \<and> (\<exists>c \<in> set k. \<not> is_digit c))"

text \<open>The world before \<open>init\<close>, and a client that answers every call with \<open>(null, data)\<close>.\<close>

definition fresh :: world where
  "fresh = \<lparr>ebay = None, issued = []\<rparr>"

definition answering :: "jsval \<Rightarrow> world" where
  "answering data = \<lparr>ebay = Some (\<lambda>service params. (Null, data)), issued = []\<rparr>"

text \<open>
  A response body with one item, as the dispatcher hands it to the parser, and a reply of
  the service in its wire format, every field wrapped in a sequence.
\<close>

definition single_item_response :: jsval where
  "single_item_response =
     Obj [(''ack'', Str ''Success''),
          (''version'', Str ''1.13.0''),
          (''searchResult'', Obj [(''@count'', Str ''1''), (''item'', Obj [(''itemId'', Arr [Str ''110''])])])]"

definition single_item_reply :: jsval where
  "single_item_reply =
     Obj [(''findItemsByProductResponse'',
           Arr [Obj [(''ack'', Arr [Str ''Success'']),
                     (''version'', Arr [Str ''1.13.0'']),
                     (''timestamp'', Arr [Str ''2018-03-01T10:00:00.000Z'']),
                     (''searchResult'',
                      Arr [Obj [(''@count'', Str ''1''),
                                (''item'', Arr [Obj [(''itemId'', Arr [Str ''110'']),
                                                     (''title'', Arr [Str ''Lamp''])]])]]),
                     (''paginationOutput'', Arr [Obj [(''pageNumber'', Arr [Str ''1''])]]),
                     (''itemSearchURL'', Arr [Str ''http://www.ebay.com/sch/i.html''])]])]"

section \<open>Properties of flatten\<close>

subsection \<open>Auxiliary facts\<close>

lemma size_list_map_le:
  "(\<And>x. x \<in> set xs \<Longrightarrow> g (f x) \<le> g x) \<Longrightarrow> size_list g (map f xs) \<le> size_list g xs"
  by (induction xs) (auto simp: add_mono)

lemma size_flatten_le: "size (flatten v) \<le> size v" and size_flatten_field_le: "size (flatten_field v) \<le> size v"
proof (induction v and v rule: flatten_flatten_field.induct)
  case (1 fs)
  have "size_list (size_prod (\<lambda>_. 0) size) (map (\<lambda>(r, x). (r, flatten_field x)) fs)
        \<le> size_list (size_prod (\<lambda>_. 0) size) fs"
  proof (rule size_list_map_le)
    fix p assume p: "p \<in> set fs"
    obtain r x where rx: "p = (r, x)" by (cases p)
    from 1 [OF p rx [symmetric]] rx
    show "size_prod (\<lambda>_. 0) size (case p of (r, x) \<Rightarrow> (r, flatten_field x)) \<le> size_prod (\<lambda>_. 0) size p"
      by simp
  qed
  then show ?case by simp
next
  case (2 xs)
  have "size_list size (map flatten_field xs) \<le> size_list size xs"
    by (rule size_list_map_le) (rule 2)
  then show ?case by simp
qed simp_all

lemma flatten_not_wrapper: "flatten w \<noteq> Arr [w]"
proof
  assume "flatten w = Arr [w]"
  then have "size (flatten w) = size (Arr [w])" by simp
  with size_flatten_le [of w] show False by simp
qed

lemma doubly_wrapped_iff: "doubly_wrapped v \<longleftrightarrow> (\<exists>u. v = Arr [Arr [u]])"
  by (cases v rule: doubly_wrapped.cases) simp_all


lemma flatten_field_other: "(\<forall>u. v \<noteq> Arr [u]) \<Longrightarrow> flatten_field v = v"
proof (cases v)
  case (Arr xs)
  assume n: "\<forall>u. v \<noteq> Arr [u]"
  show ?thesis
  proof (cases xs)
    case Nil
    with Arr show ?thesis by simp
  next
    case (Cons a ys)
    with Arr n show ?thesis by (cases ys) simp_all
  qed
qed simp_all

lemma flatten_keeps_shape: "(\<forall>u. y \<noteq> Arr [u]) \<Longrightarrow> (\<forall>u. flatten y \<noteq> Arr [u])"
  by (cases y) (auto simp: map_eq_Cons_conv)

lemma flatten_field_twice: "flatten_field (flatten_field v) = flatten_field v \<longleftrightarrow> \<not> doubly_wrapped v"
proof (cases "\<exists>y. v = Arr [y]")
  case True
  then obtain y where 1: "v = Arr [y]" by blast
  show ?thesis
  proof (cases "\<exists>u. y = Arr [u]")
    case True
    then obtain u where y: "y = Arr [u]" by blast
    have "flatten (flatten_field u) \<noteq> Arr [flatten_field u]" by (rule flatten_not_wrapper)
    with 1 y show ?thesis by simp
  next
    case False
    then have n: "\<forall>u. y \<noteq> Arr [u]" by blast
    then have "\<forall>u. flatten y \<noteq> Arr [u]" by (rule flatten_keeps_shape)
    then have "flatten_field (flatten y) = flatten y"
      by (rule flatten_field_other)
    moreover have "\<not> doubly_wrapped v" using 1 n
      by (simp add: doubly_wrapped_iff)
    ultimately show ?thesis using 1 by simp
  qed
next
  case False
  then have "flatten_field v = v" by (simp add: flatten_field_other)
  moreover have "\<not> doubly_wrapped v" using False
    by (auto simp: doubly_wrapped_iff)
  ultimately show ?thesis by simp
qed

lemma map_of_flatten_fields:
  "map_of (map (\<lambda>(r, x). (r, flatten_field x)) fs) k = map_option flatten_field (map_of fs k)"
  by (induction fs) auto

lemma update_middle:
  "r \<notin> fst ` set done \<Longrightarrow> AList.update r v (done @ (r, x) # rest) = done @ (r, v) # rest"
  by (induction "done") auto

lemma map_of_middle:
  "r \<notin> fst ` set done \<Longrightarrow> map_of (done @ (r, x) # rest) r = Some x"
  by (induction "done") auto

lemma for_in_step_middle:
  assumes "r \<notin> fst ` set done"
  shows "for_in_step flatten (done @ (r, x) # rest) r = done @ (r, flatten_field x) # rest"
proof (cases "\<exists>y. x = Arr [y]")
  case True
  then obtain y where x: "x = Arr [y]" by blast
  have m: "map_of (done @ (r, Arr [y]) # rest) r = Some (Arr [y])"
    using assms by (rule map_of_middle)
  have u: "AList.update r (flatten y) (done @ (r, Arr [y]) # rest) = done @ (r, flatten y) # rest"
    using assms by (rule update_middle)
  show ?thesis unfolding for_in_step_def x m
    by (simp only: option.case jsval.case list.case u flatten_field.simps)
next
  case False
  then have n: "\<forall>y. x \<noteq> Arr [y]" by blast
  then have "flatten_field x = x" by (rule flatten_field_other)
  moreover have "for_in_step flatten (done @ (r, x) # rest) r = done @ (r, x) # rest"
    unfolding for_in_step_def map_of_middle [OF assms]
    using n by (auto split: jsval.splits list.splits)
  ultimately show ?thesis by simp
qed

lemma for_in_loop_suffix:
  "distinct (map fst (done @ rest)) \<Longrightarrow> fst ` set done' = fst ` set done \<Longrightarrow>
   foldl (for_in_step flatten) (done' @ rest) (map fst rest)
     = done' @ map (\<lambda>(r, x). (r, flatten_field x)) rest"
proof (induction rest arbitrary: "done" done')
  case Nil
  then show ?case by simp
next
  case (Cons p rest)
  obtain r x where p: "p = (r, x)" by (cases p)
  from Cons.prems p have r: "r \<notin> fst ` set done'" by auto
  have step: "for_in_step flatten (done' @ (r, x) # rest) r = (done' @ [(r, flatten_field x)]) @ rest"
    using for_in_step_middle [OF r] by simp
  have d: "distinct (map fst ((done @ [(r, x)]) @ rest))" using Cons.prems p by simp
  have e: "fst ` set (done' @ [(r, flatten_field x)]) = fst ` set (done @ [(r, x)])"
    using Cons.prems by simp
  from Cons.IH [OF d e] step p show ?case by simp
qed

text \<open>
  For an object with each key once, running the loop key by key on the current state
  gives the value of \<open>flatten\<close>.
\<close>

lemma for_in_loop_flatten:
  "distinct (map fst fs) \<Longrightarrow> Obj (for_in_loop flatten fs) = flatten (Obj fs)"
  using for_in_loop_suffix [of "[]" fs "[]"] by (simp add: for_in_loop_def)

subsection \<open>Claim C1\<close>

text \<open>
  C1 says that every sequence of length 1, at any depth, is replaced by its sole element,
  the replacement being checked again so that a field holding \<open>[[x]]\<close> ends as \<open>x\<close>.
  The code does not do that: a field holding \<open>[[5]]\<close> ends holding \<open>[5]\<close>, and a
  sequence of length 1 inside a plain object (or inside a longer sequence) is not
  reached at all.
\<close>

theorem flatten_nested_counterexample:
  "flatten (Obj [(''a'', Arr [Arr [Num 5]])]) = Obj [(''a'', Arr [Num 5])] \<and>
   flatten (Obj [(''a'', Arr [Arr [Num 5]])]) \<noteq> Obj [(''a'', Num 5)] \<and>
   flatten (Obj [(''a'', Obj [(''b'', Arr [Num 5])])]) = Obj [(''a'', Obj [(''b'', Arr [Num 5])])]"
  by simp

text \<open>
  C1 as amended: \<open>flatten\<close> keeps the keys of an object and the length of a sequence;
  a direct field or element holding a sequence \<open>[y]\<close> of length 1 is replaced by
  \<open>flatten y\<close>, the sole element with its own direct fields treated the same way; every
  other direct field or element (a sequence of length 0 or at least 2, an object, a
  scalar) is left as it is; a value that is neither object nor sequence is returned
  unchanged; and the replacement is not checked again, so a field holding \<open>[[x]]\<close>
  still holds a sequence of length 1.
\<close>

theorem flatten_direct_fields:
  "(\<exists>gs. flatten (Obj fs) = Obj gs \<and> map fst gs = map fst fs \<and>
      (\<forall>k y. map_of fs k = Some (Arr [y]) \<longrightarrow> map_of gs k = Some (flatten y)) \<and>
      (\<forall>k x. map_of fs k = Some x \<longrightarrow> (\<forall>y. x \<noteq> Arr [y]) \<longrightarrow> map_of gs k = Some x)) \<and>
   (\<exists>ys. flatten (Arr xs) = Arr ys \<and> length ys = length xs \<and>
      (\<forall>i < length xs. (\<forall>y. xs ! i = Arr [y] \<longrightarrow> ys ! i = flatten y) \<and>
                        ((\<forall>y. xs ! i \<noteq> Arr [y]) \<longrightarrow> ys ! i = xs ! i))) \<and>
   ((\<forall>fs. v \<noteq> Obj fs) \<and> (\<forall>xs. v \<noteq> Arr xs) \<longrightarrow> flatten v = v) \<and>
   (\<exists>z. flatten (Obj [(k, Arr [Arr [x]])]) = Obj [(k, Arr [z])])"
proof (intro conjI)
  show "\<exists>gs. flatten (Obj fs) = Obj gs \<and> map fst gs = map fst fs \<and>
      (\<forall>k y. map_of fs k = Some (Arr [y]) \<longrightarrow> map_of gs k = Some (flatten y)) \<and>
      (\<forall>k x. map_of fs k = Some x \<longrightarrow> (\<forall>y. x \<noteq> Arr [y]) \<longrightarrow> map_of gs k = Some x)"
    by (auto simp: map_of_flatten_fields flatten_field_other)
  show "\<exists>ys. flatten (Arr xs) = Arr ys \<and> length ys = length xs \<and>
      (\<forall>i < length xs. (\<forall>y. xs ! i = Arr [y] \<longrightarrow> ys ! i = flatten y) \<and>
                        ((\<forall>y. xs ! i \<noteq> Arr [y]) \<longrightarrow> ys ! i = xs ! i))"
    by (auto simp: flatten_field_other)
  show "(\<forall>fs. v \<noteq> Obj fs) \<and> (\<forall>xs. v \<noteq> Arr xs) \<longrightarrow> flatten v = v"
    by (cases v) simp_all
  show "\<exists>z. flatten (Obj [(k, Arr [Arr [x]])]) = Obj [(k, Arr [z])]"
    by simp
qed


theorem flatten_direct_fields_witness:
  "map_of [(''ack'', Arr [Str ''Success'']), (''item'', Arr [Num 1, Num 2])] ''ack''
     = Some (Arr [Str ''Success'']) \<and>
   map_of [(''ack'', Arr [Str ''Success'']), (''item'', Arr [Num 1, Num 2])] ''item''
     = Some (Arr [Num 1, Num 2]) \<and>
   (\<forall>y. Arr [Num 1, Num 2] \<noteq> Arr [y]) \<and>
   (\<exists>gs. flatten (Obj [(''ack'', Arr [Str ''Success'']), (''item'', Arr [Num 1, Num 2])]) = Obj gs \<and>
      map fst gs = [''ack'', ''item''] \<and>
      map_of gs ''ack'' = Some (Str ''Success'') \<and>
      map_of gs ''item'' = Some (Arr [Num 1, Num 2])) \<and>
   (0::nat) < length [Arr [Null], Arr []] \<and>
   (\<exists>ys. flatten (Arr [Arr [Null], Arr []]) = Arr ys \<and> length ys = 2 \<and> ys ! 0 = Null) \<and>
   flatten (Str ''x'') = Str ''x''"
  using flatten_direct_fields
    [of "[(''ack'', Arr [Str ''Success'']), (''item'', Arr [Num 1, Num 2])]"
        "[Arr [Null], Arr []]" "Str ''x''" "''a''" "Num 5"]
  by simp

subsection \<open>Claim C2\<close>

text \<open>
  C2 says that \<open>flatten (flatten x) = flatten x\<close> for every \<open>x\<close>. On a field holding
  \<open>[[1]]\<close> the first pass leaves \<open>[1]\<close> and the second pass collapses it to \<open>1\<close>.
\<close>

theorem flatten_idempotent_counterexample:
  "flatten (Obj [(''a'', Arr [Arr [Num 1]])]) = Obj [(''a'', Arr [Num 1])] \<and>
   flatten (flatten (Obj [(''a'', Arr [Arr [Num 1]])])) = Obj [(''a'', Num 1)] \<and>
   flatten (flatten (Obj [(''a'', Arr [Arr [Num 1]])])) \<noteq> flatten (Obj [(''a'', Arr [Arr [Num 1]])])"
  by simp

text \<open>
  C2 as amended: \<open>flatten (flatten x) = flatten x\<close> holds exactly for the \<open>x\<close> none of
  whose direct fields or elements is a sequence of length 1 whose sole element is again
  a sequence of length 1.
\<close>

theorem flatten_idempotent_iff:
  "flatten (flatten x) = flatten x \<longleftrightarrow> (\<forall>v \<in> set (direct_values x). \<not> doubly_wrapped v)"
proof (cases x)
  case (Obj fs)
  have "(map (\<lambda>(r, x). (r, flatten_field x)) (map (\<lambda>(r, x). (r, flatten_field x)) fs) = map (\<lambda>(r, x). (r, flatten_field x)) fs)
     \<longleftrightarrow> (\<forall>v \<in> set (map snd fs). \<not> doubly_wrapped v)"
    by (induction fs) (auto simp: flatten_field_twice)
  with Obj show ?thesis by simp
next
  case (Arr xs)
  have "map flatten_field (map flatten_field xs) = map flatten_field xs \<longleftrightarrow> (\<forall>v \<in> set xs. \<not> doubly_wrapped v)"
    by (induction xs) (auto simp: flatten_field_twice)
  with Arr show ?thesis by simp
qed simp_all


theorem flatten_idempotent_iff_witness:
  "direct_values (Obj [(''ack'', Arr [Str ''Success'']), (''item'', Arr [Arr [Num 1], Arr [Num 2]])])
     = [Arr [Str ''Success''], Arr [Arr [Num 1], Arr [Num 2]]] \<and>
   \<not> doubly_wrapped (Arr [Str ''Success'']) \<and>
   \<not> doubly_wrapped (Arr [Arr [Num 1], Arr [Num 2]]) \<and>
   flatten (flatten (Obj [(''ack'', Arr [Str ''Success'']), (''item'', Arr [Arr [Num 1], Arr [Num 2]])]))
     = flatten (Obj [(''ack'', Arr [Str ''Success'']), (''item'', Arr [Arr [Num 1], Arr [Num 2]])])"
  using flatten_idempotent_iff
    [of "Obj [(''ack'', Arr [Str ''Success'']), (''item'', Arr [Arr [Num 1], Arr [Num 2]])]"]
  by simp

section \<open>Properties of the dispatcher and the parser\<close>

subsection \<open>Auxiliary facts\<close>

lemma valid_ops: "validOperation ''findItemsByProduct''" "validOperation ''findItemsAdvanced''"
  by (simp_all add: validOperation_def findOperations_def)

lemma valid_types:
  "validProductIdType (Str ''UPC'')" "validProductIdType (Str ''ReferenceID'')"
  "validProductIdType (Str ''ISBN'')" "validProductIdType (Str ''EAN'')"
  by (simp_all add: validProductIdType_def productIdTypes_def)

lemma findCall_uninitialized:
  "ebay w = None \<Longrightarrow> validOperation operation \<Longrightarrow>
   findCall operation parser baseParams other w = (Inr (Rejected TypeError), w)"
  by (simp add: findCall_def)

lemma nullish_flatten: "nullish (flatten v) = nullish v"
  by (cases v) (simp_all add: nullish_def)

lemma dec_digits: "c \<in> set (dec n) \<Longrightarrow> is_digit c"
proof (induction n rule: dec.induct)
  case (1 n)
  have d: "is_digit (digit_char m)" if "m < 10" for m
    using that by (simp add: is_digit_def digit_char_def)
  show ?case
  proof (cases "n < 10")
    case True
    with 1 d show ?thesis by (simp add: dec.simps [of n])
  next
    case False
    with 1 d [of "n mod 10"] show ?thesis by (auto simp: dec.simps [of n])
  qed
qed

lemma index_key_named: "c \<in> set k \<Longrightarrow> \<not> is_digit c \<Longrightarrow> index_key k n = None"
  by (auto simp: index_key_def find_None_iff dest: dec_digits)

lemma own_prop_named:
  "named k \<Longrightarrow> own_prop v k = (case v of Obj fs \<Rightarrow> (case map_of fs k of Some x \<Rightarrow> x | None \<Rightarrow> Undefined) | _ \<Rightarrow> Undefined)"
  by (cases v) (auto simp: named_def index_key_named)

lemma named_keys:
  "named ''item''" "named ''searchResult''" "named ''@count''" "named ''ack''"
  by (simp_all add: named_def is_digit_def)

lemma has_item_Obj: "has_item sr \<Longrightarrow> \<exists>fs item. sr = Obj fs \<and> map_of fs ''item'' = Some item \<and> truthy item"
  by (cases sr) (auto simp: has_item_def own_prop_named named_keys simp del: own_prop.simps split: option.splits)


lemma productIdTypes_joined: "join '' '' productIdTypes = ''ReferenceID ISBN UPC EAN''"
  by (simp add: productIdTypes_def)

lemma ack_Obj: "own_prop response ''ack'' = Str ''Failure'' \<Longrightarrow> \<exists>fs. response = Obj fs"
  using own_prop_named [OF named_keys(4), of response] by (cases response) simp_all

lemma searchResult_Obj:
  "has_item (own_prop response ''searchResult'') \<Longrightarrow> \<exists>fs. response = Obj fs"
proof -
  assume h: "has_item (own_prop response ''searchResult'')"
  then have "own_prop response ''searchResult'' \<noteq> Undefined" by (auto simp: has_item_def)
  then show ?thesis
    using own_prop_named [OF named_keys(2), of response] by (cases response) simp_all
qed

lemma own_prop_setprop_other:
  "k \<noteq> k' \<Longrightarrow> own_prop (setprop (Obj fs) k' x) k = own_prop (Obj fs) k"
  by (simp add: update_conv')

lemma own_prop_setprop_same:
  "own_prop (setprop (Obj fs) k x) k = x"
  by (simp add: update_conv')

lemma coerced_response_other:
  "k \<noteq> ''searchResult'' \<Longrightarrow> own_prop (coerced_response response) k = own_prop response k"
proof (cases "has_item (own_prop response ''searchResult'')")
  case True
  assume k: "k \<noteq> ''searchResult''"
  from True obtain fs where "response = Obj fs" using searchResult_Obj by blast
  with True k show ?thesis
    by (simp add: coerced_response_def own_prop_setprop_other del: own_prop.simps setprop.simps)
next
  case False
  then show ?thesis by (simp add: coerced_response_def)
qed

lemma coerced_response_searchResult:
  "own_prop (coerced_response response) ''searchResult'' = coerce_item (own_prop response ''searchResult'')"
proof (cases "has_item (own_prop response ''searchResult'')")
  case True
  from True obtain fs where "response = Obj fs" using searchResult_Obj by blast
  with True show ?thesis
    by (simp only: coerced_response_def if_True own_prop_setprop_same)
next
  case False
  then show ?thesis by (simp add: coerced_response_def coerce_item_def)
qed

lemma coerce_item_other:
  "k \<noteq> ''item'' \<Longrightarrow> own_prop (coerce_item sr) k = own_prop sr k"
proof (cases "has_item sr")
  case True
  assume k: "k \<noteq> ''item''"
  from True obtain fs where "sr = Obj fs" using has_item_Obj by blast
  with True k show ?thesis
    by (simp add: coerce_item_def own_prop_setprop_other del: own_prop.simps setprop.simps)
next
  case False
  then show ?thesis by (simp add: coerce_item_def)
qed

lemma coerce_item_item:
  "has_item sr \<Longrightarrow> own_prop (coerce_item sr) ''item'' = forceArray (own_prop sr ''item'')"
proof -
  assume h: "has_item sr"
  then obtain fs where "sr = Obj fs" using has_item_Obj by blast
  with h show ?thesis
    by (simp only: coerce_item_def if_True own_prop_setprop_same)
qed

lemma coerce_item_sequence:
  "own_prop sr ''item'' = Arr xs \<Longrightarrow> coerce_item sr = sr"
proof (cases "has_item sr")
  case True
  assume a: "own_prop sr ''item'' = Arr xs"
  from True obtain fs item where sr: "sr = Obj fs" and m: "map_of fs ''item'' = Some item"
    using has_item_Obj by blast
  from a sr m have "item = Arr xs" by simp
  with sr m True show ?thesis by (simp add: coerce_item_def update_triv)
next
  case False
  then show ?thesis by (simp add: coerce_item_def)
qed

lemma coerced_response_same:
  assumes "coerce_item (own_prop response ''searchResult'') = own_prop response ''searchResult''"
  shows "coerced_response response = response"
proof (cases "has_item (own_prop response ''searchResult'')")
  case True
  then obtain fs where r: "response = Obj fs" using searchResult_Obj by blast
  from True have "own_prop response ''searchResult'' \<noteq> Undefined" by (auto simp: has_item_def)
  with r obtain sr where "map_of fs ''searchResult'' = Some sr" by (auto split: option.splits)
  with r True assms show ?thesis by (simp add: coerced_response_def update_triv)
next
  case False
  then show ?thesis by (simp add: coerced_response_def)
qed

lemma parseInt_one: "parseInt (Str ''1'') = Num 1"
  by (simp add: parseInt_def is_space_def is_digit_def digits_value_def)

lemma map_flatten_forceArray:
  "\<exists>items. map_flatten (forceArray v) = Inr (Arr items)"
  by (cases v) simp_all

lemma parseInt_absent: "parseInt Undefined = NaN"
  by (simp add: parseInt_def is_space_def is_digit_def)

subsection \<open>Claim C3\<close>

text \<open>
  The earlier module tests the handle first:
  \<open>if (!ebay) throw new Error('call ebay-find-api init first')\<close>.
\<close>

lemma uninitialized_v0:
  "ebay w = None \<Longrightarrow>
   findItemsByProduct_v0 type ident other w = (Inl (Error ''call ebay-find-api init first''), w)"
  by (simp add: findItemsByProduct_v0_def)

text \<open>
  In index.js that test is gone. With the handle \<open>null\<close> the call \<open>ebay.get\<close> inside
  the executor is a \<open>TypeError\<close>, so each wrapper returns a promise rejected with it.
\<close>

lemma uninitialized_wrappers:
  assumes "ebay w = None"
  shows "findItemsByUpc x other w = (Inr (Rejected TypeError), w)"
    and "findItemsByReferenceId x other w = (Inr (Rejected TypeError), w)"
    and "findItemsByIsbn x other w = (Inr (Rejected TypeError), w)"
    and "findItemsByEan x other w = (Inr (Rejected TypeError), w)"
    and "findItemsByKeywords x other w = (Inr (Rejected TypeError), w)"
  using assms
  by (simp_all add: findItemsByUpc_def findItemsByReferenceId_def findItemsByIsbn_def findItemsByEan_def
      findItemsByKeywords_def findItemsByProduct_def apply_twice_def
      callFindByProduct_def callFindItemsAdvanced_def valid_types valid_ops findCall_uninitialized)

text \<open>
  C3 says that every public search function called before \<open>init\<close> fails with the
  error \<open>NotInitialized\<close>, before any remote call. In index.js, before \<open>init\<close>,
  \<open>findItemsByUpc\<close>, \<open>findItemsByProduct\<close> and \<open>findItemsByKeywords\<close> return a
  promise rejected with a \<open>TypeError\<close>, and \<open>findItemsByProduct\<close> with an
  unsupported type throws the error of the type check. No remote call is made.
\<close>

theorem uninitialized_call_type_error:
  "findItemsByUpc (Str ''012345678905'') (Obj []) fresh = (Inr (Rejected TypeError), fresh) \<and>
   findItemsByProduct (Str ''UPC'') (Str ''012345678905'') (Obj []) fresh
     = (Inr (Promise (Rejected TypeError)), fresh) \<and>
   findItemsByKeywords (Str ''lamp'') (Obj []) fresh = (Inr (Rejected TypeError), fresh) \<and>
   findItemsByProduct (Str ''SKU'') (Str ''1'') (Obj []) fresh
     = (Inl (Error ''unknown type SKU, use one of [ReferenceID ISBN UPC EAN]''), fresh)"
  by (simp add: findItemsByUpc_def findItemsByProduct_def findItemsByKeywords_def apply_twice_def
      callFindByProduct_def callFindItemsAdvanced_def valid_types valid_ops findCall_uninitialized fresh_def
      validProductIdType_def productIdTypes_def unknown_type_message_def)

subsection \<open>Claim C4\<close>

text \<open>
  C4 says that a successful reply whose envelope field is absent or empty, the empty
  mapping \<open>{}\<close> included, is rejected with \<open>EmptyResponse\<close> without the parser being
  called. The test is \<open>!response\<close>, and \<open>{}\<close> and \<open>[]\<close> are truthy: the parser is
  called on them (here a parser that returns what it is given). A reply whose body is
  \<open>undefined\<close> fails in the destructuring instead, inside the callback.
\<close>

theorem empty_mapping_counterexample:
  "fst (findCall ''findItemsByProduct'' (\<lambda>response. Inr response) (Obj []) (Obj [])
          (answering (Obj [(''findItemsByProductResponse'', Obj [])])))
     = Inr (Resolved (Obj [])) \<and>
   fst (findCall ''findItemsByProduct'' (\<lambda>response. Inr response) (Obj []) (Obj [])
          (answering (Obj [(''findItemsByProductResponse'', Arr [])])))
     = Inr (Resolved (Arr [])) \<and>
   fst (findCall ''findItemsByProduct'' (\<lambda>response. Inr response) (Obj []) (Obj [])
          (answering Undefined))
     = Inr (CallbackThrew TypeError)"
  by (simp add: findCall_def valid_ops answering_def on_reply_def then_parser_def getprop_def nullish_def)

text \<open>
  C4 as amended: for a successful reply with a body other than \<open>null\<close> and
  \<open>undefined\<close> whose envelope field, after \<open>flatten\<close>, is absent or falsy
  (\<open>undefined\<close>, \<open>null\<close>, \<open>false\<close>, \<open>0\<close>, \<open>NaN\<close>, the empty string), the promise is
  rejected with \<open>Error('eBay Response Empty')\<close> after the one remote call, whatever the
  parser: it is not called.
\<close>

theorem empty_response_rejected:
  assumes "validOperation operation"
    and "ebay w = Some client"
    and "client ''finding'' (call_params operation baseParams other) = (err, data)"
    and "\<not> truthy err"
    and "\<not> nullish data"
    and "\<not> truthy (own_prop (flatten data) (operation @ ''Response''))"
  shows "findCall operation parser baseParams other w
           = (Inr (Rejected (Error ''eBay Response Empty'')),
              w\<lparr>issued := issued w @ [(''finding'', call_params operation baseParams other)]\<rparr>)"
  using assms
  by (simp add: findCall_def on_reply_def then_parser_def getprop_def nullish_flatten)

theorem empty_response_rejected_witness:
  "validOperation ''findItemsByProduct'' \<and>
   ebay (answering (Obj [])) = Some (\<lambda>service params. (Null, Obj [])) \<and>
   \<not> truthy Null \<and> \<not> nullish (Obj []) \<and>
   \<not> truthy (own_prop (flatten (Obj [])) (''findItemsByProduct'' @ ''Response'')) \<and>
   findCall ''findItemsByProduct'' findByProductParser (Obj []) (Obj []) (answering (Obj []))
     = (Inr (Rejected (Error ''eBay Response Empty'')),
        \<lparr>ebay = Some (\<lambda>service params. (Null, Obj [])),
         issued = [(''finding'', Obj [(''OPERATION-NAME'', Str ''findItemsByProduct'')])]\<rparr>)"
proof -
  have v: "validOperation ''findItemsByProduct''" by (rule valid_ops)
  have e: "ebay (answering (Obj [])) = Some (\<lambda>service params. (Null, Obj []))"
    by (simp add: answering_def)
  have c: "(\<lambda>service params. (Null, Obj [])) ''finding'' (call_params ''findItemsByProduct'' (Obj []) (Obj []))
             = (Null, Obj [])" by simp
  have t: "\<not> truthy Null" by simp
  have n: "\<not> nullish (Obj [])" by (simp add: nullish_def)
  have r: "\<not> truthy (own_prop (flatten (Obj [])) (''findItemsByProduct'' @ ''Response''))" by simp
  from empty_response_rejected [OF v e c t n r, of findByProductParser] v e t n r
  show ?thesis by (simp add: answering_def call_params_def define_all_def)
qed

subsection \<open>Claim C5\<close>

text \<open>
  Whenever \<open>searchResult\<close> is absent (or \<open>null\<close>) and \<open>ack\<close> is not Failure, the
  parser raises a \<open>TypeError\<close>.
\<close>

lemma missing_searchResult_in_general:
  "\<not> nullish response \<Longrightarrow> own_prop response ''ack'' \<noteq> Str ''Failure'' \<Longrightarrow>
   nullish (own_prop response ''searchResult'') \<Longrightarrow> findByProductParser response = Inl TypeError"
  by (auto simp: findByProductParser_def nullish_def coerce_item_def has_item_def getprop_def)

text \<open>
  With \<open>searchResult\<close> present, the count is 0 whenever \<open>parseInt\<close> finds no number
  in \<open>searchResult['@count']\<close>, as for an absent \<open>@count\<close>.
\<close>

lemma count_defaults_to_zero:
  assumes "findByProductParser response = Inr result"
    and "parseInt (own_prop (own_prop response ''searchResult'') ''@count'') = NaN"
  shows "own_prop result ''searchResultCount'' = Num 0"
proof -
  have c: "own_prop (coerce_item (own_prop response ''searchResult'')) ''@count''
             = own_prop (own_prop response ''searchResult'') ''@count''"
    by (rule coerce_item_other) simp
  from assms(1) show ?thesis
    by (auto simp: findByProductParser_def Let_def getprop_def c assms(2) or_js_def
        split: if_splits sum.splits)
qed

lemma count_absent_example:
  "findByProductParser (Obj [(''ack'', Str ''Success''), (''searchResult'', Obj [])])
     = Inr (Obj [(''ack'', Str ''Success''), (''version'', Undefined), (''timestamp'', Undefined),
                 (''searchResultCount'', Num 0), (''searchResult'', Arr []),
                 (''paginationOutput'', Undefined), (''itemSearchUrl'', Undefined)])"
  by (simp add: findByProductParser_def nullish_def coerce_item_def has_item_def getprop_def
      parseInt_absent or_js_def)

text \<open>
  C5 says that a response without \<open>searchResult\<close> (and \<open>ack\<close> other than Failure)
  resolves with \<open>searchResult = []\<close> and \<open>searchResultCount = 0\<close>. The expression for
  \<open>searchResult\<close> guards the absent case (\<open>searchResult && searchResult.item ? ... : []\<close>),
  the one for the count does not: \<open>searchResult['@count']\<close> on \<open>undefined\<close> is a
  \<open>TypeError\<close>, and the promise is rejected with it. Here on the response
  \<open>{ack: 'Success', version: '1.13.0'}\<close>, directly and through \<open>findItemsByUpc\<close>.
\<close>

theorem missing_searchResult_type_error:
  "findByProductParser (Obj [(''ack'', Str ''Success''), (''version'', Str ''1.13.0'')]) = Inl TypeError \<and>
   fst (findItemsByUpc (Str ''012345678905'') (Obj [])
          (answering (Obj [(''findItemsByProductResponse'',
                            Arr [Obj [(''ack'', Arr [Str ''Success'']),
                                      (''version'', Arr [Str ''1.13.0''])]])])))
     = Inr (Rejected TypeError)"
  by (simp add: findByProductParser_def nullish_def coerce_item_def has_item_def getprop_def
      findItemsByUpc_def findItemsByProduct_def apply_twice_def callFindByProduct_def valid_types
      findCall_def valid_ops answering_def on_reply_def then_parser_def)

subsection \<open>Claim C6\<close>



subsection \<open>Claim C7\<close>

text \<open>
  C7 says that for every string outside \<open>ReferenceID\<close>, \<open>ISBN\<close>, \<open>UPC\<close>, \<open>EAN\<close>
  given as the type, \<open>findItemsByProduct\<close> fails with the error of the type check.
  Called without an identifier, or with a falsy one such as the empty string, it does not
  fail: the test \<open>!id\<close> comes first and the function awaiting the identifier is
  returned, before and after \<open>init\<close>, whatever the type.
\<close>

theorem unknown_type_partial_counterexample:
  "''SKU'' \<notin> set productIdTypes \<and>
   \<not> truthy Undefined \<and> \<not> truthy (Str '''') \<and>
   findItemsByProduct (Str ''SKU'') Undefined Undefined fresh
     = (Inr (AwaitsId (callFindByProduct (Str ''SKU''))), fresh) \<and>
   findItemsByProduct (Str ''SKU'') (Str '''') (Obj []) fresh
     = (Inr (AwaitsId (callFindByProduct (Str ''SKU''))), fresh) \<and>
   findItemsByProduct (Str ''SKU'') Undefined Undefined (answering Null)
     = (Inr (AwaitsId (callFindByProduct (Str ''SKU''))), answering Null)"
  by (simp add: productIdTypes_def findItemsByProduct_def)

text \<open>
  C7 as amended: for every string \<open>t\<close> outside \<open>ReferenceID\<close>, \<open>ISBN\<close>, \<open>UPC\<close>,
  \<open>EAN\<close> given as the type, \<open>findItemsByProduct\<close> called with a truthy identifier
  fails at once with the error that names \<open>t\<close> and lists the valid set; called with a
  falsy identifier (\<open>!id\<close>) it does not fail but hands back the function that awaits
  the identifier, and every application of that function throws this error. No remote
  call is issued in either case: the world is unchanged.
\<close>

theorem unknown_type_rejected:
  assumes "t \<notin> set productIdTypes"
  shows "(truthy ident \<longrightarrow>
            findItemsByProduct (Str t) ident other w
              = (Inl (Error (''unknown type '' @ t @ '', use one of [ReferenceID ISBN UPC EAN]'')), w)) \<and>
         (\<not> truthy ident \<longrightarrow>
            (\<exists>f. findItemsByProduct (Str t) ident other w = (Inr (AwaitsId f), w) \<and>
                 (\<forall>lookupId. f lookupId
                    = Inl (Error (''unknown type '' @ t @ '', use one of [ReferenceID ISBN UPC EAN]''))))) \<and>
         snd (findItemsByProduct (Str t) ident other w) = w"
proof -
  have n: "\<not> validProductIdType (Str t)"
    using assms by (auto simp: validProductIdType_def)
  have c: "callFindByProduct (Str t) i
             = Inl (Error (''unknown type '' @ t @ '', use one of [ReferenceID ISBN UPC EAN]''))" for i
    using n by (simp add: callFindByProduct_def unknown_type_message_def productIdTypes_joined)
  show ?thesis
    by (simp add: findItemsByProduct_def c)
qed

theorem unknown_type_rejected_witness:
  "''SKU'' \<notin> set productIdTypes \<and> truthy (Str ''1'') \<and> \<not> truthy Undefined \<and>
   findItemsByProduct (Str ''SKU'') (Str ''1'') (Obj []) (answering Null)
     = (Inl (Error ''unknown type SKU, use one of [ReferenceID ISBN UPC EAN]''), answering Null) \<and>
   (\<exists>f. findItemsByProduct (Str ''SKU'') Undefined Undefined (answering Null)
           = (Inr (AwaitsId f), answering Null) \<and>
         f (Str ''1'') = Inl (Error ''unknown type SKU, use one of [ReferenceID ISBN UPC EAN]''))"
proof -
  have s: "''SKU'' \<notin> set productIdTypes" by (simp add: productIdTypes_def)
  from unknown_type_rejected [OF s, of "Str ''1''" "Obj []" "answering Null"]
       unknown_type_rejected [OF s, of Undefined Undefined "answering Null"] s
  show ?thesis by (simp, blast)
qed

subsection \<open>Claim C8\<close>

text \<open>
  C8: on a response body whose \<open>ack\<close> is the string Failure the parser throws the
  response body itself and produces no result record. The body is thrown as lines 111 to
  113 have left it: every field as received, except that \<open>searchResult.item\<close>, when
  present, has been coerced to a sequence; when \<open>item\<close> is absent or already a sequence
  the value thrown equals the body received.
\<close>

theorem failure_rejects_with_body:
  assumes "own_prop response ''ack'' = Str ''Failure''"
  shows "findByProductParser response = Inl (Thrown (coerced_response response)) \<and>
         (\<forall>k. k \<noteq> ''searchResult'' \<longrightarrow> own_prop (coerced_response response) k = own_prop response k) \<and>
         (\<forall>k. k \<noteq> ''item'' \<longrightarrow>
            own_prop (own_prop (coerced_response response) ''searchResult'') k
              = own_prop (own_prop response ''searchResult'') k) \<and>
         (has_item (own_prop response ''searchResult'') \<longrightarrow>
            own_prop (own_prop (coerced_response response) ''searchResult'') ''item''
              = forceArray (own_prop (own_prop response ''searchResult'') ''item'')) \<and>
         (\<not> has_item (own_prop response ''searchResult'') \<longrightarrow> coerced_response response = response) \<and>
         (\<forall>xs. own_prop (own_prop response ''searchResult'') ''item'' = Arr xs \<longrightarrow>
            coerced_response response = response)"
proof (intro conjI)
  from assms obtain fs where "response = Obj fs" using ack_Obj by blast
  then have "\<not> nullish response" by (simp add: nullish_def)
  with assms show "findByProductParser response = Inl (Thrown (coerced_response response))"
    by (simp add: findByProductParser_def)
  show "\<forall>k. k \<noteq> ''searchResult'' \<longrightarrow> own_prop (coerced_response response) k = own_prop response k"
    by (simp add: coerced_response_other)
  show "\<forall>k. k \<noteq> ''item'' \<longrightarrow>
            own_prop (own_prop (coerced_response response) ''searchResult'') k
              = own_prop (own_prop response ''searchResult'') k"
    by (simp add: coerced_response_searchResult coerce_item_other)
  show "has_item (own_prop response ''searchResult'') \<longrightarrow>
            own_prop (own_prop (coerced_response response) ''searchResult'') ''item''
              = forceArray (own_prop (own_prop response ''searchResult'') ''item'')"
    by (simp add: coerced_response_searchResult coerce_item_item)
  show "\<not> has_item (own_prop response ''searchResult'') \<longrightarrow> coerced_response response = response"
    by (simp add: coerced_response_def)
  show "\<forall>xs. own_prop (own_prop response ''searchResult'') ''item'' = Arr xs \<longrightarrow>
            coerced_response response = response"
    by (auto intro: coerced_response_same coerce_item_sequence)
qed

theorem failure_rejects_with_body_witness:
  "own_prop (Obj [(''ack'', Str ''Failure''),
                  (''errorMessage'', Obj [(''error'', Obj [(''errorId'', Str ''2'')])])]) ''ack''
     = Str ''Failure'' \<and>
   findByProductParser (Obj [(''ack'', Str ''Failure''),
                             (''errorMessage'', Obj [(''error'', Obj [(''errorId'', Str ''2'')])])])
     = Inl (Thrown (Obj [(''ack'', Str ''Failure''),
                         (''errorMessage'', Obj [(''error'', Obj [(''errorId'', Str ''2'')])])])) \<and>
   own_prop (Obj [(''ack'', Str ''Failure''),
                  (''searchResult'', Obj [(''@count'', Str ''1''), (''item'', Obj [(''itemId'', Str ''110'')])])]) ''ack''
     = Str ''Failure'' \<and>
   findByProductParser (Obj [(''ack'', Str ''Failure''),
                             (''searchResult'', Obj [(''@count'', Str ''1''), (''item'', Obj [(''itemId'', Str ''110'')])])])
     = Inl (Thrown (Obj [(''ack'', Str ''Failure''),
                         (''searchResult'', Obj [(''@count'', Str ''1''), (''item'', Arr [Obj [(''itemId'', Str ''110'')]])])]))"
proof -
  let ?r = "Obj [(''ack'', Str ''Failure''),
                 (''errorMessage'', Obj [(''error'', Obj [(''errorId'', Str ''2'')])])]"
  let ?q = "Obj [(''ack'', Str ''Failure''),
                 (''searchResult'', Obj [(''@count'', Str ''1''), (''item'', Obj [(''itemId'', Str ''110'')])])]"
  have a: "own_prop ?r ''ack'' = Str ''Failure''" by simp
  have b: "own_prop ?q ''ack'' = Str ''Failure''" by simp
  have h: "\<not> has_item (own_prop ?r ''searchResult'')" by (simp add: has_item_def)
  have c: "coerced_response ?q
             = Obj [(''ack'', Str ''Failure''),
                    (''searchResult'', Obj [(''@count'', Str ''1''), (''item'', Arr [Obj [(''itemId'', Str ''110'')]])])]"
    by (simp add: coerced_response_def coerce_item_def has_item_def)
  from failure_rejects_with_body [OF a] h have "findByProductParser ?r = Inl (Thrown ?r)"
    by simp
  moreover from failure_rejects_with_body [OF b] have "findByProductParser ?q = Inl (Thrown (coerced_response ?q))"
    by simp
  ultimately show ?thesis using a b c by simp
qed

subsection \<open>Claim C9\<close>

text \<open>
  C9: in every result the parser returns, \<open>searchResult\<close> is a sequence. In particular,
  when \<open>ack\<close> is Success, \<open>searchResult['@count']\<close> is the string 1 and
  \<open>searchResult.item\<close> is a single value that is no sequence (an object, or any truthy
  scalar), the result has \<open>searchResult\<close> equal to the one-element sequence of that
  item, normalized, and \<open>searchResultCount\<close> equal to 1.
\<close>

theorem searchResult_always_sequence:
  "(findByProductParser response = Inr result \<longrightarrow>
      (\<exists>items. own_prop result ''searchResult'' = Arr items)) \<and>
   (own_prop response ''ack'' = Str ''Success'' \<and>
    own_prop response ''searchResult'' = Obj sr \<and>
    map_of sr ''item'' = Some item \<and> truthy item \<and> (\<forall>xs. item \<noteq> Arr xs) \<and>
    map_of sr ''@count'' = Some (Str ''1'') \<longrightarrow>
      findByProductParser response
        = Inr (Obj [(''ack'', Str ''Success''),
                    (''version'', own_prop response ''version''),
                    (''timestamp'', own_prop response ''timestamp''),
                    (''searchResultCount'', Num 1),
                    (''searchResult'', Arr [flatten item]),
                    (''paginationOutput'', own_prop response ''paginationOutput''),
                    (''itemSearchUrl'', own_prop response ''itemSearchURL'')]))"
proof (intro conjI impI)
  assume p: "findByProductParser response = Inr result"
  let ?sr = "coerce_item (own_prop response ''searchResult'')"
  have items: "\<exists>items. (if has_item ?sr then map_flatten (own_prop ?sr ''item'') else Inr (Arr [])) = Inr (Arr items)"
  proof (cases "has_item (own_prop response ''searchResult'')")
    case True
    then have "own_prop ?sr ''item'' = forceArray (own_prop (own_prop response ''searchResult'') ''item'')"
      by (rule coerce_item_item)
    then show ?thesis using map_flatten_forceArray by simp
  next
    case False
    then have "?sr = own_prop response ''searchResult''" by (simp add: coerce_item_def)
    with False show ?thesis by simp
  qed
  then obtain items where i: "(if has_item ?sr then map_flatten (own_prop ?sr ''item'') else Inr (Arr [])) = Inr (Arr items)"
    by blast
  from p have "own_prop result ''searchResult'' = Arr items"
    unfolding findByProductParser_def Let_def i
    by (auto split: if_splits sum.splits)
  then show "\<exists>items. own_prop result ''searchResult'' = Arr items" by blast
next
  assume a: "own_prop response ''ack'' = Str ''Success'' \<and>
    own_prop response ''searchResult'' = Obj sr \<and>
    map_of sr ''item'' = Some item \<and> truthy item \<and> (\<forall>xs. item \<noteq> Arr xs) \<and>
    map_of sr ''@count'' = Some (Str ''1'')"
  then have n: "\<not> nullish response" by (auto simp: nullish_def)
  from a have h: "has_item (own_prop response ''searchResult'')" by (simp add: has_item_def)
  from a have f: "forceArray item = Arr [item]" by (cases item) auto
  have c: "coerce_item (own_prop response ''searchResult'') = Obj (AList.update ''item'' (Arr [item]) sr)"
    using a h f by (simp add: coerce_item_def)
  have h': "has_item (Obj (AList.update ''item'' (Arr [item]) sr))"
    by (simp add: has_item_def update_conv')
  have cnt: "own_prop (Obj (AList.update ''item'' (Arr [item]) sr)) ''@count'' = Str ''1''"
    using a by (simp add: update_conv')
  have it: "own_prop (Obj (AList.update ''item'' (Arr [item]) sr)) ''item'' = Arr [item]"
    by (simp add: update_conv')
  show "findByProductParser response
        = Inr (Obj [(''ack'', Str ''Success''),
                    (''version'', own_prop response ''version''),
                    (''timestamp'', own_prop response ''timestamp''),
                    (''searchResultCount'', Num 1),
                    (''searchResult'', Arr [flatten item]),
                    (''paginationOutput'', own_prop response ''paginationOutput''),
                    (''itemSearchUrl'', own_prop response ''itemSearchURL'')])"
    unfolding findByProductParser_def Let_def c
    using n a h' cnt it
    by (simp add: getprop_def nullish_def parseInt_one or_js_def del: own_prop.simps)
qed

theorem searchResult_always_sequence_witness:
  "own_prop single_item_response ''ack'' = Str ''Success'' \<and>
   own_prop single_item_response ''searchResult''
     = Obj [(''@count'', Str ''1''), (''item'', Obj [(''itemId'', Arr [Str ''110''])])] \<and>
   map_of [(''@count'', Str ''1''), (''item'', Obj [(''itemId'', Arr [Str ''110''])])] ''item''
     = Some (Obj [(''itemId'', Arr [Str ''110''])]) \<and>
   truthy (Obj [(''itemId'', Arr [Str ''110''])]) \<and>
   (\<forall>xs. Obj [(''itemId'', Arr [Str ''110''])] \<noteq> Arr xs) \<and>
   map_of [(''@count'', Str ''1''), (''item'', Obj [(''itemId'', Arr [Str ''110''])])] ''@count''
     = Some (Str ''1'') \<and>
   findByProductParser single_item_response
     = Inr (Obj [(''ack'', Str ''Success''),
                 (''version'', Str ''1.13.0''),
                 (''timestamp'', Undefined),
                 (''searchResultCount'', Num 1),
                 (''searchResult'', Arr [Obj [(''itemId'', Str ''110'')]]),
                 (''paginationOutput'', Undefined),
                 (''itemSearchUrl'', Undefined)]) \<and>
   own_prop (Obj [(''ack'', Str ''Success''),
                 (''version'', Str ''1.13.0''),
                 (''timestamp'', Undefined),
                 (''searchResultCount'', Num 1),
                 (''searchResult'', Arr [Obj [(''itemId'', Str ''110'')]]),
                 (''paginationOutput'', Undefined),
                 (''itemSearchUrl'', Undefined)]) ''searchResult''
     = Arr [Obj [(''itemId'', Str ''110'')]]"
proof -
  let ?sr = "[(''@count'', Str ''1''), (''item'', Obj [(''itemId'', Arr [Str ''110''])])]"
  let ?item = "Obj [(''itemId'', Arr [Str ''110''])]"
  have h: "own_prop single_item_response ''ack'' = Str ''Success'' \<and>
    own_prop single_item_response ''searchResult'' = Obj ?sr \<and>
    map_of ?sr ''item'' = Some ?item \<and> truthy ?item \<and> (\<forall>xs. ?item \<noteq> Arr xs) \<and>
    map_of ?sr ''@count'' = Some (Str ''1'')"
    by (simp add: single_item_response_def)
  from searchResult_always_sequence [of single_item_response _ ?sr ?item]
  have "findByProductParser single_item_response
        = Inr (Obj [(''ack'', Str ''Success''),
                    (''version'', own_prop single_item_response ''version''),
                    (''timestamp'', own_prop single_item_response ''timestamp''),
                    (''searchResultCount'', Num 1),
                    (''searchResult'', Arr [flatten ?item]),
                    (''paginationOutput'', own_prop single_item_response ''paginationOutput''),
                    (''itemSearchUrl'', own_prop single_item_response ''itemSearchURL'')])"
    using h by blast
  then have "findByProductParser single_item_response
     = Inr (Obj [(''ack'', Str ''Success''),
                 (''version'', Str ''1.13.0''),
                 (''timestamp'', Undefined),
                 (''searchResultCount'', Num 1),
                 (''searchResult'', Arr [Obj [(''itemId'', Str ''110'')]]),
                 (''paginationOutput'', Undefined),
                 (''itemSearchUrl'', Undefined)])"
    by (simp add: single_item_response_def)
  with h show ?thesis by simp
qed

text \<open>
  The same through \<open>findItemsByUpc\<close>, on a reply in the wire format: \<open>flatten\<close> turns
  the one-item sequence into a bare object, and the parser makes it a sequence again.
\<close>

lemma single_item_end_to_end:
  "fst (findItemsByUpc (Str ''012345678905'') Undefined (answering single_item_reply))
     = Inr (Resolved (Obj [(''ack'', Str ''Success''),
                           (''version'', Str ''1.13.0''),
                           (''timestamp'', Str ''2018-03-01T10:00:00.000Z''),
                           (''searchResultCount'', Num 1),
                           (''searchResult'', Arr [Obj [(''itemId'', Str ''110''), (''title'', Str ''Lamp'')]]),
                           (''paginationOutput'', Obj [(''pageNumber'', Str ''1'')]),
                           (''itemSearchUrl'', Str ''http://www.ebay.com/sch/i.html'')]))"
  by (simp add: findItemsByUpc_def findItemsByProduct_def apply_twice_def callFindByProduct_def valid_types
      findCall_def valid_ops answering_def single_item_reply_def on_reply_def then_parser_def getprop_def
      nullish_def findByProductParser_def coerce_item_def has_item_def parseInt_one or_js_def)

subsection \<open>Claim C10\<close>

text \<open>
  C10: \<open>findItemsByProduct\<close> applied to a type alone (the identifier \<open>undefined\<close>, or
  any falsy value) checks nothing: whatever the type and whatever the world, initialized
  or not, it returns the function \<open>lookupId => callFindByProduct({ type, id: lookupId })\<close>
  and leaves the world as it is. The type is checked when that function is applied to an
  identifier: for an unsupported type the application throws the error of the type
  check, and for a supported one it returns the dispatcher bound to the operation, the
  parser and the two product parameters, which runs only when applied to \<open>other\<close>.
\<close>

theorem partial_application_defers_validation:
  "(\<not> truthy ident \<longrightarrow>
      findItemsByProduct type ident other w = (Inr (AwaitsId (callFindByProduct type)), w)) \<and>
   (\<not> validProductIdType type \<longrightarrow>
      callFindByProduct type lookupId = Inl (Error (unknown_type_message type))) \<and>
   (validProductIdType type \<longrightarrow>
      callFindByProduct type lookupId
        = Inr (findCall ''findItemsByProduct'' findByProductParser
                 (Obj [(''productId.@type'', type), (''productId'', lookupId)])))"
  by (simp add: findItemsByProduct_def callFindByProduct_def)

theorem partial_application_defers_validation_witness:
  "\<not> truthy Undefined \<and> \<not> validProductIdType (Str ''SKU'') \<and>
   findItemsByProduct (Str ''SKU'') Undefined Undefined fresh
     = (Inr (AwaitsId (callFindByProduct (Str ''SKU''))), fresh) \<and>
   callFindByProduct (Str ''SKU'') (Str ''012345678905'')
     = Inl (Error ''unknown type SKU, use one of [ReferenceID ISBN UPC EAN]'')"
proof -
  have n: "\<not> validProductIdType (Str ''SKU'')"
    by (simp add: validProductIdType_def productIdTypes_def)
  from partial_application_defers_validation [of Undefined "Str ''SKU''" Undefined fresh "Str ''012345678905''"] n
  show ?thesis by (simp add: unknown_type_message_def productIdTypes_joined)
qed

section \<open>The earlier module on the same inputs\<close>

text \<open>
  After \<open>init\<close> the earlier \<open>findItemsByProduct\<close> rejects an unsupported type before any
  remote call; its callback rejects an empty envelope and a Failure acknowledgement as
  the dispatcher and parser of index.js do, and raises the same \<open>TypeError\<close> on a
  response without \<open>searchResult\<close>, there inside the callback.
\<close>

lemma unknown_type_v0:
  "ebay w = Some client \<Longrightarrow> t \<notin> set productIdTypes \<Longrightarrow>
   findItemsByProduct_v0 (Str t) ident other w
     = (Inl (Error (''unknown type '' @ t @ '', use ReferenceID, ISBN, UPC, or EAN'')), w)"
  by (auto simp: findItemsByProduct_v0_def unknown_type_message_v0_def)

lemma empty_response_v0:
  "\<not> truthy err \<Longrightarrow> \<not> nullish data \<Longrightarrow>
   \<not> truthy (own_prop (flatten data) ''findItemsByProductResponse'') \<Longrightarrow>
   on_reply_v0 (err, data) = Rejected (Error ''eBay Response Empty'')"
  by (simp add: on_reply_v0_def getprop_def nullish_flatten)

lemma failure_v0:
  assumes "\<not> truthy err"
    and "own_prop (flatten data) ''findItemsByProductResponse'' = response"
    and "own_prop response ''ack'' = Str ''Failure''"
  shows "on_reply_v0 (err, data) = Rejected (Thrown (coerced_response response))"
proof -
  from assms(3) obtain fs where r: "response = Obj fs" using ack_Obj by blast
  with assms(2) have "flatten data \<noteq> Undefined" "flatten data \<noteq> Null" by auto
  then have n: "\<not> nullish (flatten data)" by (simp add: nullish_def)
  have p: "findByProductParser response = Inl (Thrown (coerced_response response))"
    using assms(3) r by (simp add: findByProductParser_def nullish_def)
  show ?thesis
    using assms(1,2) n r p by (simp add: on_reply_v0_def getprop_def)
qed

lemma missing_searchResult_v0:
  "on_reply_v0 (Null, Obj [(''findItemsByProductResponse'', Arr [Obj [(''ack'', Arr [Str ''Success''])]])])
     = CallbackThrew TypeError"
  by (simp add: on_reply_v0_def getprop_def nullish_def findByProductParser_def coerce_item_def has_item_def)

end
